theory Spec2Isabelle
  imports Main "HOL-Library.Word" "HOL-Library.Char_ord" "HOL-Library.List_Lexorder"
begin

section \<open>Data model\<close>

text \<open>
  A \<^verbatim>\<open>Uint8Array\<close> is a list of 8-bit words. A JavaScript string that the code encodes
  to bytes, decodes from bytes or parses (the AAD, the JSON payload, the text of an item)
  is the list of its UTF-16 code units, \<open>jsstring\<close>: any list is a string, also one with
  a surrogate that has no partner. The other strings (identifiers, base64 text, algorithm
  names, timestamps) are only stored, compared and passed on; they are \<open>string\<close>, and
  \<open>js\<close> reads such a literal as a JavaScript string. An optional or nullable value
  (\<^verbatim>\<open>undefined\<close>, \<^verbatim>\<open>null\<close>, SQL \<^verbatim>\<open>NULL\<close>) is \<open>None\<close>.
\<close>

type_synonym bytes = "8 word list"

type_synonym jsstring = "16 word list"

definition js :: "string \<Rightarrow> jsstring" where
  "js s = map of_char s"

text \<open>
  The envelope type of \<^verbatim>\<open>@crypto/interface\<close>, as the sources build and read it:
  \<^verbatim>\<open>{ header: { v: 1, alg, aad?, kdf: { saltB64 } }, nB64, cB64 }\<close>.
\<close>

record kdf_params =
  saltB64 :: string

record envelope_header =
  v :: nat
  h_alg :: string
  h_aad :: "jsstring option"
  kdf :: kdf_params

record CipherEnvelope =
  header :: envelope_header
  nB64 :: string
  cB64 :: string

text \<open>
  \<^verbatim>\<open>EncryptedColumns\<close>: the flat column form of an envelope. \<^verbatim>\<open>columnsToEnvelope\<close>
  guards \<^verbatim>\<open>aad\<close> and \<^verbatim>\<open>kdf_salt_b64\<close> with \<^verbatim>\<open>??\<close>, so both are nullable.
\<close>

record EncryptedColumns =
  alg :: string
  aad :: "jsstring option"
  nonce_b64 :: string
  cipher_b64 :: string
  kdf_salt_b64 :: "string option"

text \<open>The header's \<^verbatim>\<open>v\<close> has the literal type \<^verbatim>\<open>1\<close>: an envelope is valid when it holds 1.\<close>

definition valid_envelope :: "CipherEnvelope \<Rightarrow> bool" where
  "valid_envelope e = (v (header e) = 1)"

section \<open>Envelope and columns\<close>

definition columnsToEnvelope :: "EncryptedColumns \<Rightarrow> CipherEnvelope" where
  "columnsToEnvelope args =
     \<lparr> header = \<lparr> v = 1,
                   h_alg = alg args,
                   h_aad = aad args,
                   kdf = \<lparr> saltB64 = (case kdf_salt_b64 args of None \<Rightarrow> '''' | Some s \<Rightarrow> s) \<rparr> \<rparr>,
       nB64 = nonce_b64 args,
       cB64 = cipher_b64 args \<rparr>"

text \<open>
  Modelled from the spec: \<^verbatim>\<open>envelopeToColumns\<close> is not among the sources. The spec
  describes the flat column representation persisted in a relational row: algorithm,
  aad, kdfSalt, nonce and ciphertext, each stored as a separate column. The write paths
  of \<^verbatim>\<open>TodoList.tsx\<close> flatten an envelope the same way when they bind the parameters
  of \<^verbatim>\<open>INSERT_SQL\<close> and \<^verbatim>\<open>UPDATE_SQL\<close>.
\<close>

definition envelopeToColumns :: "CipherEnvelope \<Rightarrow> EncryptedColumns" where
  "envelopeToColumns e =
     \<lparr> alg = h_alg (header e),
       aad = h_aad (header e),
       nonce_b64 = nB64 e,
       cipher_b64 = cB64 e,
       kdf_salt_b64 = Some (saltB64 (kdf (header e))) \<rparr>"

section \<open>The todos table\<close>

text \<open>
  The columns of the managed \<^verbatim>\<open>todos\<close> table of \<^verbatim>\<open>SystemProvider.tsx\<close>, in the order of
  the \<^verbatim>\<open>Table\<close> declaration, and the columns of \<^verbatim>\<open>CREATE_TABLE_SQL\<close> with their SQL type,
  their \<^verbatim>\<open>NOT NULL\<close> flag and the primary key flag.
\<close>

definition todos_Table_columns :: "string list" where
  "todos_Table_columns =
     [''id'', ''user_id'', ''bucket_id'', ''alg'', ''aad'', ''nonce_b64'', ''cipher_b64'',
      ''kdf_salt_b64'', ''created_at'', ''updated_at'']"

record column_def =
  col_name :: string
  col_type :: string
  col_not_null :: bool
  col_primary_key :: bool

definition CREATE_TABLE_SQL_columns :: "column_def list" where
  "CREATE_TABLE_SQL_columns =
     [\<lparr>col_name = ''id'', col_type = ''TEXT'', col_not_null = False, col_primary_key = True\<rparr>,
      \<lparr>col_name = ''user_id'', col_type = ''TEXT'', col_not_null = True, col_primary_key = False\<rparr>,
      \<lparr>col_name = ''bucket_id'', col_type = ''TEXT'', col_not_null = False, col_primary_key = False\<rparr>,
      \<lparr>col_name = ''alg'', col_type = ''TEXT'', col_not_null = True, col_primary_key = False\<rparr>,
      \<lparr>col_name = ''aad'', col_type = ''TEXT'', col_not_null = False, col_primary_key = False\<rparr>,
      \<lparr>col_name = ''nonce_b64'', col_type = ''TEXT'', col_not_null = True, col_primary_key = False\<rparr>,
      \<lparr>col_name = ''cipher_b64'', col_type = ''TEXT'', col_not_null = True, col_primary_key = False\<rparr>,
      \<lparr>col_name = ''kdf_salt_b64'', col_type = ''TEXT'', col_not_null = True, col_primary_key = False\<rparr>,
      \<lparr>col_name = ''created_at'', col_type = ''TEXT'', col_not_null = True, col_primary_key = False\<rparr>,
      \<lparr>col_name = ''updated_at'', col_type = ''TEXT'', col_not_null = True, col_primary_key = False\<rparr>]"

definition implicit_columns :: "string list" where
  "implicit_columns = [''id'', ''user_id'', ''bucket_id'', ''updated_at'']"

definition envelope_columns :: "string list" where
  "envelope_columns = [''alg'', ''aad'', ''nonce_b64'', ''cipher_b64'', ''kdf_salt_b64'']"

text \<open>
  A row of \<^verbatim>\<open>todos\<close>, typed by \<^verbatim>\<open>CREATE_TABLE_SQL\<close>: the columns without \<^verbatim>\<open>NOT NULL\<close>
  are nullable.
\<close>

record todo_row =
  r_id :: string
  r_user_id :: string
  r_bucket_id :: "string option"
  r_alg :: string
  r_aad :: "jsstring option"
  r_nonce_b64 :: string
  r_cipher_b64 :: string
  r_kdf_salt_b64 :: string
  r_created_at :: string
  r_updated_at :: string

section \<open>The SELECT statements\<close>

text \<open>
  SQL values are nullable text; a comparison is three-valued (\<open>None\<close> is SQL's
  unknown) and \<^verbatim>\<open>WHERE\<close> keeps a row only when its condition is true.
\<close>

type_synonym sqlval = "string option"

definition sql_eq :: "sqlval \<Rightarrow> sqlval \<Rightarrow> bool option" where
  "sql_eq a b = (case a of None \<Rightarrow> None
                 | Some x \<Rightarrow> (case b of None \<Rightarrow> None | Some y \<Rightarrow> Some (x = y)))"

definition sql_and :: "bool option \<Rightarrow> bool option \<Rightarrow> bool option" where
  "sql_and a b =
     (if a = Some False \<or> b = Some False then Some False
      else if a = Some True \<and> b = Some True then Some True
      else None)"

definition NULLIF :: "sqlval \<Rightarrow> sqlval \<Rightarrow> sqlval" where
  "NULLIF a b = (if sql_eq a b = Some True then None else a)"

definition COALESCE :: "sqlval \<Rightarrow> sqlval \<Rightarrow> sqlval" where
  "COALESCE a b = (case a of None \<Rightarrow> b | Some x \<Rightarrow> Some x)"

definition sql_where :: "(todo_row \<Rightarrow> bool option) \<Rightarrow> todo_row list \<Rightarrow> todo_row list" where
  "sql_where cond rows = filter (\<lambda>r. cond r = Some True) rows"

text \<open>\<^verbatim>\<open>ORDER BY created_at DESC\<close>: text compares bytewise; equal keys keep their order.\<close>

definition ORDER_BY_created_at_DESC :: "todo_row list \<Rightarrow> todo_row list" where
  "ORDER_BY_created_at_DESC rows = rev (sort_key r_created_at (rev rows))"

definition SELECT_BY_USER_SQL :: "todo_row list \<Rightarrow> sqlval \<Rightarrow> todo_row list" where
  "SELECT_BY_USER_SQL tbl p1 =
     ORDER_BY_created_at_DESC (sql_where (\<lambda>r. sql_eq (Some (r_user_id r)) p1) tbl)"

definition SELECT_BY_USER_OPTIONAL_BUCKET_SQL ::
  "todo_row list \<Rightarrow> sqlval \<Rightarrow> sqlval \<Rightarrow> todo_row list" where
  "SELECT_BY_USER_OPTIONAL_BUCKET_SQL tbl p1 p2 =
     ORDER_BY_created_at_DESC
       (sql_where (\<lambda>r. sql_and (sql_eq (Some (r_user_id r)) p1)
                          (sql_eq (COALESCE (NULLIF p2 (Some '''')) (r_bucket_id r)) (r_bucket_id r)))
          tbl)"

text \<open>A table holding one row that \<^verbatim>\<open>addTodo\<close> writes when no bucket is entered.\<close>

definition row_without_bucket :: todo_row where
  "row_without_bucket =
     \<lparr> r_id = ''00'', r_user_id = ''u'', r_bucket_id = None,
       r_alg = ''xchacha20poly1305/raw'', r_aad = Some (js ''todo-v1''),
       r_nonce_b64 = ''n'', r_cipher_b64 = ''c'', r_kdf_salt_b64 = '''',
       r_created_at = ''2024-01-01T00:00:00.000Z'', r_updated_at = ''2024-01-01T00:00:00.000Z'' \<rparr>"

section \<open>Imported libraries\<close>

text \<open>
  A thrown JavaScript \<^verbatim>\<open>Error\<close> (a rejected promise, for an \<^verbatim>\<open>async\<close> function) is a
  value \<open>Inl (Error message)\<close>; a function that may throw returns \<open>error + 'a\<close>.
\<close>

datatype error = Error string

text \<open>The values \<^verbatim>\<open>JSON.parse\<close> returns.\<close>

datatype json =
    JNull
  | JBool bool
  | JNumber int
  | JString jsstring
  | JArray "json list"
  | JObject "(string \<times> json) list"

text \<open>
  The functions the sources import and do not define: the AEAD of \<^verbatim>\<open>libsodium\<close> (message
  or ciphertext, additional data or \<^verbatim>\<open>null\<close>, public nonce, key; the secret nonce is always
  \<^verbatim>\<open>null\<close> and is left out), the base64 helpers of \<^verbatim>\<open>@crypto/interface\<close>, and the
  platform's \<^verbatim>\<open>JSON.stringify\<close>, \<^verbatim>\<open>JSON.parse\<close>, \<^verbatim>\<open>String.prototype.trim\<close> and
  \<^verbatim>\<open>TextDecoder.decode\<close>. They are parameters of the model. Random values
  (\<^verbatim>\<open>randombytes_buf\<close>, \<^verbatim>\<open>cryptoRandomId\<close>), the clock (\<^verbatim>\<open>new Date().toISOString()\<close>) and
  the failure of a storage call are arguments of the functions that meet them.
\<close>

record libs =
  crypto_aead_xchacha20poly1305_ietf_encrypt ::
    "bytes \<Rightarrow> bytes option \<Rightarrow> bytes \<Rightarrow> bytes \<Rightarrow> error + bytes"
  crypto_aead_xchacha20poly1305_ietf_decrypt ::
    "bytes \<Rightarrow> bytes option \<Rightarrow> bytes \<Rightarrow> bytes \<Rightarrow> error + bytes"
  bytesToBase64 :: "bytes \<Rightarrow> string"
  base64ToBytes :: "string \<Rightarrow> error + bytes"
  JSON_stringify :: "json \<Rightarrow> jsstring"
  JSON_parse :: "jsstring \<Rightarrow> error + json"
  trim :: "jsstring \<Rightarrow> jsstring"
  TextDecoder_decode :: "bytes \<Rightarrow> jsstring"

text \<open>
  What the theorems assume of the libraries. \<open>aead_correct\<close>: opening a sealed message
  with the arguments it was sealed with returns the message. \<open>aead_binds_ad\<close>: opening it
  with other additional data throws (the idealised authenticity of the AEAD); the library
  reads \<^verbatim>\<open>null\<close> as additional data of length zero, so \<open>ad_bytes\<close> are what it
  authenticates. \<open>base64_roundtrip\<close>: decoding an encoded byte array returns it.
\<close>

definition ad_bytes :: "bytes option \<Rightarrow> bytes" where
  "ad_bytes ad = (case ad of None \<Rightarrow> [] | Some bs \<Rightarrow> bs)"

definition aead_correct :: "libs \<Rightarrow> bool" where
  "aead_correct L =
     (\<forall>m ad n k c. crypto_aead_xchacha20poly1305_ietf_encrypt L m ad n k = Inr c
        \<longrightarrow> crypto_aead_xchacha20poly1305_ietf_decrypt L c ad n k = Inr m)"

definition aead_binds_ad :: "libs \<Rightarrow> bool" where
  "aead_binds_ad L =
     (\<forall>m ad ad' n k c.
        crypto_aead_xchacha20poly1305_ietf_encrypt L m ad n k = Inr c \<and> ad_bytes ad' \<noteq> ad_bytes ad
        \<longrightarrow> isl (crypto_aead_xchacha20poly1305_ietf_decrypt L c ad' n k))"

definition base64_roundtrip :: "libs \<Rightarrow> bool" where
  "base64_roundtrip L = (\<forall>bs. base64ToBytes L (bytesToBase64 L bs) = Inr bs)"

section \<open>DataCrypto\<close>

text \<open>
  \<^verbatim>\<open>new TextEncoder().encode(str)\<close>: the string is read as a sequence of scalar values, a
  lead surrogate and the trail surrogate after it as one supplementary code point and
  every other surrogate as U+FFFD, and each scalar value is written in UTF-8.
\<close>

definition utf8_bytes :: "nat \<Rightarrow> bytes" where
  "utf8_bytes cp =
     (if cp < 0x80 then [of_nat cp]
      else if cp < 0x800 then [of_nat (0xC0 + cp div 0x40), of_nat (0x80 + cp mod 0x40)]
      else if cp < 0x10000 then
        [of_nat (0xE0 + cp div 0x1000), of_nat (0x80 + (cp div 0x40) mod 0x40),
         of_nat (0x80 + cp mod 0x40)]
      else
        [of_nat (0xF0 + cp div 0x40000), of_nat (0x80 + (cp div 0x1000) mod 0x40),
         of_nat (0x80 + (cp div 0x40) mod 0x40), of_nat (0x80 + cp mod 0x40)])"

definition is_lead :: "16 word \<Rightarrow> bool" where
  "is_lead u = (0xD800 \<le> u \<and> u \<le> 0xDBFF)"

definition is_trail :: "16 word \<Rightarrow> bool" where
  "is_trail u = (0xDC00 \<le> u \<and> u \<le> 0xDFFF)"

definition scalar_value :: "16 word \<Rightarrow> nat" where
  "scalar_value u = (if is_lead u \<or> is_trail u then 0xFFFD else unat u)"

fun TextEncoder_encode :: "jsstring \<Rightarrow> bytes" where
  "TextEncoder_encode [] = []"
| "TextEncoder_encode [u] = utf8_bytes (scalar_value u)"
| "TextEncoder_encode (u # l # rest) =
     (if is_lead u \<and> is_trail l
      then utf8_bytes (0x10000 + (unat u - 0xD800) * 0x400 + (unat l - 0xDC00))
             @ TextEncoder_encode rest
      else utf8_bytes (scalar_value u) @ TextEncoder_encode (l # rest))"

text \<open>A string of ASCII characters only, such as the AAD of the component.\<close>

definition ascii :: "jsstring \<Rightarrow> bool" where
  "ascii s = (\<forall>u \<in> set s. u < 0x80)"

definition utf8 :: "jsstring \<Rightarrow> bytes" where
  "utf8 str = TextEncoder_encode str"

definition ALG :: string where
  "ALG = ''xchacha20poly1305/raw''"

record DataCrypto =
  key :: bytes

text \<open>\<^verbatim>\<open>a ?? b\<close>, and \<^verbatim>\<open>x ? new TextEncoder().encode(x) : null\<close> (the empty string is falsy).\<close>

definition nullish :: "'a option \<Rightarrow> 'a option \<Rightarrow> 'a option" where
  "nullish a b = (case a of None \<Rightarrow> b | Some x \<Rightarrow> Some x)"

definition encode_if_truthy :: "jsstring option \<Rightarrow> bytes option" where
  "encode_if_truthy a =
     (case a of None \<Rightarrow> None
      | Some s \<Rightarrow> if s = [] then None else Some (TextEncoder_encode s))"

text \<open>\<^verbatim>\<open>DataCrypto.encrypt\<close>; \<open>nonce\<close> is the buffer \<^verbatim>\<open>randombytes_buf\<close> returned.\<close>

definition encrypt ::
  "libs \<Rightarrow> DataCrypto \<Rightarrow> bytes \<Rightarrow> bytes \<Rightarrow> jsstring option \<Rightarrow> error + CipherEnvelope" where
  "encrypt L this nonce plain a =
     (case crypto_aead_xchacha20poly1305_ietf_encrypt L plain (encode_if_truthy a) nonce (key this) of
        Inl e \<Rightarrow> Inl e
      | Inr ct \<Rightarrow>
          Inr \<lparr> header = \<lparr> v = 1, h_alg = ALG, h_aad = a, kdf = \<lparr> saltB64 = '''' \<rparr> \<rparr>,
                nB64 = bytesToBase64 L nonce,
                cB64 = bytesToBase64 L ct \<rparr>)"

definition decrypt ::
  "libs \<Rightarrow> DataCrypto \<Rightarrow> CipherEnvelope \<Rightarrow> jsstring option \<Rightarrow> error + bytes" where
  "decrypt L this env a =
     (case base64ToBytes L (nB64 env) of
        Inl e \<Rightarrow> Inl e
      | Inr nonce \<Rightarrow>
          (case base64ToBytes L (cB64 env) of
             Inl e \<Rightarrow> Inl e
           | Inr ct \<Rightarrow>
               crypto_aead_xchacha20poly1305_ietf_decrypt L ct
                 (encode_if_truthy (nullish a (h_aad (header env)))) nonce (key this)))"


section \<open>The TodoList component\<close>

text \<open>
  The component's props and state that the modelled functions read and write. The
  \<^verbatim>\<open>CryptoProvider\<close> is used through its \<^verbatim>\<open>decrypt\<close> only. Each function runs to
  completion before the next one starts.
\<close>

record CryptoProvider =
  provider_decrypt :: "CipherEnvelope \<Rightarrow> jsstring option \<Rightarrow> error + bytes"

record Todo =
  t_id :: string
  t_text :: jsstring
  t_completed :: bool
  t_env :: CipherEnvelope
  t_synced :: "bool option"

text \<open>The component's \<^verbatim>\<open>aad\<close>, and \<^verbatim>\<open>String.prototype.includes\<close>.\<close>

definition aad_const :: jsstring where
  "aad_const = js ''todo-v1''"

fun includes_str :: "string \<Rightarrow> string \<Rightarrow> bool" where
  "includes_str [] sub = (sub = [])"
| "includes_str (c # cs) sub = (take (length sub) (c # cs) = sub \<or> includes_str cs sub)"

text \<open>
  \<^verbatim>\<open>obj?.name\<close>: a property of a parsed object; \<^verbatim>\<open>undefined\<close> on every other value. Then
  the inner \<^verbatim>\<open>try\<close> of the decrypt effect: a parse error, or a field of another type,
  leaves the defaults (the decoded text, \<^verbatim>\<open>false\<close>).
\<close>

fun optional_prop :: "json \<Rightarrow> string \<Rightarrow> json option" where
  "optional_prop (JObject props) name = map_of props name"
| "optional_prop _ name = None"

definition parse_decoded :: "libs \<Rightarrow> jsstring \<Rightarrow> jsstring \<times> bool" where
  "parse_decoded L decoded =
     (case JSON_parse L decoded of
        Inl e \<Rightarrow> (decoded, False)
      | Inr obj \<Rightarrow>
          ((case optional_prop obj ''text'' of Some (JString s) \<Rightarrow> s | _ \<Rightarrow> decoded),
           (case optional_prop obj ''completed'' of Some (JBool b) \<Rightarrow> b | _ \<Rightarrow> False)))"

text \<open>
  The decrypt effect. \<open>row_try\<close> is the body of the \<^verbatim>\<open>try\<close> for one row: \<open>Inl\<close> is an
  exception thrown inside it, \<open>Inr None\<close> the \<^verbatim>\<open>continue\<close> of a locked list, \<open>Inr (Some t)\<close>
  the item pushed. \<open>rows_loop\<close> is the \<^verbatim>\<open>for\<close> loop with its \<^verbatim>\<open>catch\<close> and the three
  variables \<^verbatim>\<open>serverItems\<close>, \<^verbatim>\<open>ok\<close> and \<^verbatim>\<open>fail\<close>. \<open>merge_items\<close> is the updater passed to
  \<^verbatim>\<open>setItems\<close>, and \<open>decrypt_effect\<close> the effect as a function of the previous items
  (logging is left out).
\<close>

definition row_envelope :: "todo_row \<Rightarrow> CipherEnvelope" where
  "row_envelope r =
     columnsToEnvelope
       \<lparr> alg = r_alg r, aad = r_aad r, nonce_b64 = r_nonce_b64 r,
         cipher_b64 = r_cipher_b64 r, kdf_salt_b64 = Some (r_kdf_salt_b64 r) \<rparr>"

definition project :: "libs \<Rightarrow> todo_row \<Rightarrow> CipherEnvelope \<Rightarrow> bytes \<Rightarrow> Todo" where
  "project L r env plain =
     (let decoded = TextDecoder_decode L plain
      in \<lparr> t_id = r_id r, t_text = fst (parse_decoded L decoded),
           t_completed = snd (parse_decoded L decoded), t_env = env,
           t_synced = Some True \<rparr>)"

definition row_try ::
  "libs \<Rightarrow> CryptoProvider \<Rightarrow> DataCrypto option \<Rightarrow> todo_row \<Rightarrow> error + Todo option" where
  "row_try L crypto dc r =
     (let env = row_envelope r;
          isRaw = includes_str (h_alg (header env)) ''/raw''
      in if isRaw then
           (case dc of
              None \<Rightarrow> Inr None
            | Some d \<Rightarrow>
                (case decrypt L d env (r_aad r) of
                   Inl e \<Rightarrow> Inl e
                 | Inr plain \<Rightarrow> Inr (Some (project L r env plain))))
         else
           (case provider_decrypt crypto env (r_aad r) of
              Inl e \<Rightarrow> Inl e
            | Inr plain \<Rightarrow> Inr (Some (project L r env plain))))"

fun rows_loop ::
  "libs \<Rightarrow> CryptoProvider \<Rightarrow> DataCrypto option \<Rightarrow> todo_row list \<Rightarrow> Todo list \<times> nat \<times> nat
     \<Rightarrow> Todo list \<times> nat \<times> nat" where
  "rows_loop L crypto dc [] acc = acc"
| "rows_loop L crypto dc (r # rs) (serverItems, ok, fail) =
     (case row_try L crypto dc r of
        Inr None \<Rightarrow> rows_loop L crypto dc rs (serverItems, ok, fail)
      | Inr (Some t) \<Rightarrow> rows_loop L crypto dc rs (serverItems @ [t], ok + 1, fail)
      | Inl e \<Rightarrow> rows_loop L crypto dc rs (serverItems, ok, fail + 1))"

definition row_items :: "libs \<Rightarrow> CryptoProvider \<Rightarrow> DataCrypto option \<Rightarrow> todo_row \<Rightarrow> Todo list" where
  "row_items L crypto dc r = (case row_try L crypto dc r of Inr (Some t) \<Rightarrow> [t] | _ \<Rightarrow> [])"

definition merge_items :: "Todo list \<Rightarrow> Todo list \<Rightarrow> Todo list" where
  "merge_items serverItems prev =
     filter (\<lambda>t. t_synced t \<noteq> Some True \<and> t_id t \<notin> set (map t_id serverItems)) prev
       @ serverItems"

definition decrypt_effect ::
  "libs \<Rightarrow> CryptoProvider \<Rightarrow> DataCrypto option \<Rightarrow> bool \<Rightarrow> todo_row list option \<Rightarrow> Todo list
     \<Rightarrow> Todo list" where
  "decrypt_effect L crypto dc isFetching rows prev =
     (case rows of
        None \<Rightarrow> prev
      | Some rs \<Rightarrow>
          if isFetching \<and> rs = [] then prev
          else merge_items (fst (rows_loop L crypto dc rs ([], 0, 0))) prev)"

text \<open>
  The write paths. The state holds the component's \<^verbatim>\<open>useState\<close> cells and the local
  \<^verbatim>\<open>todos\<close> table. \<open>Done s\<close> is a call that returned and left the state \<open>s\<close>,
  \<open>Rejected e s\<close> one that threw \<open>e\<close> after leaving \<open>s\<close>.
\<close>

record TodoList_state =
  items :: "Todo list"
  input_text :: jsstring
  bucketId :: string
  userId :: "string option"
  dataCrypto :: "DataCrypto option"
  todos :: "todo_row list"

datatype outcome =
    Done (state_of: TodoList_state)
  | Rejected (thrown: error) (state_of: TodoList_state)

text \<open>
  \<^verbatim>\<open>db.execute\<close>. The statements as functions of the table: \<open>INSERT_SQL\<close> fails on a
  duplicate primary key, \<open>UPDATE_SQL\<close> rewrites the rows that match. A storage call can
  also fail for a reason outside the table; \<open>fault\<close> is that failure, when there is one,
  and then the call rejects and leaves the table as it was.
\<close>

definition INSERT_SQL ::
  "todo_row list \<Rightarrow> string \<Rightarrow> string \<Rightarrow> string option \<Rightarrow> string \<Rightarrow> jsstring option \<Rightarrow> string
     \<Rightarrow> string \<Rightarrow> string \<Rightarrow> string \<Rightarrow> string \<Rightarrow> error + todo_row list" where
  "INSERT_SQL tbl p1 p2 p3 p4 p5 p6 p7 p8 p9 p10 =
     (if p1 \<in> set (map r_id tbl) then Inl (Error ''UNIQUE constraint failed: todos.id'')
      else Inr (tbl @
        [\<lparr> r_id = p1, r_user_id = p2, r_bucket_id = p3, r_alg = p4, r_aad = p5,
           r_nonce_b64 = p6, r_cipher_b64 = p7, r_kdf_salt_b64 = p8,
           r_created_at = p9, r_updated_at = p10 \<rparr>]))"

definition UPDATE_SQL ::
  "todo_row list \<Rightarrow> string \<Rightarrow> jsstring option \<Rightarrow> string \<Rightarrow> string \<Rightarrow> string \<Rightarrow> string
     \<Rightarrow> string \<Rightarrow> string \<Rightarrow> todo_row list" where
  "UPDATE_SQL tbl p1 p2 p3 p4 p5 p6 p7 p8 =
     map (\<lambda>r. if r_id r = p7 \<and> r_user_id r = p8
               then r\<lparr> r_alg := p1, r_aad := p2, r_nonce_b64 := p3, r_cipher_b64 := p4,
                       r_kdf_salt_b64 := p5, r_updated_at := p6 \<rparr>
               else r) tbl"

definition db_execute :: "error option \<Rightarrow> error + todo_row list \<Rightarrow> error + todo_row list" where
  "db_execute fault result = (case fault of Some e \<Rightarrow> Inl e | None \<Rightarrow> result)"

text \<open>\<^verbatim>\<open>JSON.stringify({ text, completed })\<close>, the payload both write paths encrypt.\<close>

definition todo_payload :: "libs \<Rightarrow> jsstring \<Rightarrow> bool \<Rightarrow> jsstring" where
  "todo_payload L txt completed =
     JSON_stringify L (JObject [(''text'', JString txt), (''completed'', JBool completed)])"

text \<open>
  \<open>addTodo\<close>: \<open>nonce\<close>, \<open>new_id\<close> and \<open>now\<close> are the random nonce, the random id and the
  clock reading it draws. \<^verbatim>\<open>if (userId)\<close> is a truthiness test: \<^verbatim>\<open>null\<close> and the empty
  string write no row. A failed insert is not caught: the call rejects with the
  optimistic item in place.
\<close>

definition addTodo ::
  "libs \<Rightarrow> bytes \<Rightarrow> string \<Rightarrow> string \<Rightarrow> error option \<Rightarrow> TodoList_state \<Rightarrow> outcome" where
  "addTodo L nonce new_id now fault s =
     (if trim L (input_text s) = [] then Done s
      else case dataCrypto s of
        None \<Rightarrow> Done s
      | Some dc \<Rightarrow>
          (case encrypt L dc nonce (utf8 (todo_payload L (trim L (input_text s)) False))
                  (Some aad_const) of
             Inl e \<Rightarrow> Rejected e s
           | Inr env \<Rightarrow>
               (let s1 = s\<lparr> items :=
                              \<lparr> t_id = new_id, t_text = trim L (input_text s), t_completed = False,
                                t_env = env, t_synced = Some False \<rparr> # items s,
                            input_text := [] \<rparr>
                in case userId s of
                  None \<Rightarrow> Done s1
                | Some uid \<Rightarrow>
                    if uid = [] then Done s1
                    else
                     (case db_execute fault
                             (INSERT_SQL (todos s1) new_id uid
                                (if bucketId s = [] then None else Some (bucketId s))
                                (h_alg (header env)) (Some aad_const) (nB64 env) (cB64 env)
                                (saltB64 (kdf (header env))) now now) of
                        Inl e \<Rightarrow> Rejected e s1
                      | Inr tbl \<Rightarrow>
                          Done (s1\<lparr> todos := tbl,
                                    items := map (\<lambda>t. if t_id t = new_id
                                                        then t\<lparr> t_synced := Some True \<rparr> else t)
                                               (items s1) \<rparr>)))))"

text \<open>
  \<open>toggleCompleted\<close>: the storage call is inside \<^verbatim>\<open>try { } catch {}\<close>, so a failed update
  is swallowed: the call returns with the table as it was and the item left unsynced.
\<close>

definition toggleCompleted ::
  "libs \<Rightarrow> bytes \<Rightarrow> string \<Rightarrow> error option \<Rightarrow> string \<Rightarrow> TodoList_state \<Rightarrow> outcome" where
  "toggleCompleted L nonce now fault ident s =
     (case find (\<lambda>x. t_id x = ident) (items s) of
        None \<Rightarrow> Done s
      | Some t \<Rightarrow>
          (case dataCrypto s of
             None \<Rightarrow> Done s
           | Some dc \<Rightarrow>
               (case encrypt L dc nonce (utf8 (todo_payload L (t_text t) (\<not> t_completed t)))
                       (Some aad_const) of
                  Inl e \<Rightarrow> Rejected e s
                | Inr env \<Rightarrow>
                    (let s1 = s\<lparr> items := map (\<lambda>x. if t_id x = ident
                                                      then x\<lparr> t_completed := \<not> t_completed t,
                                                              t_env := env, t_synced := Some False \<rparr>
                                                      else x) (items s) \<rparr>
                     in case userId s of
                       None \<Rightarrow> Done s1
                     | Some uid \<Rightarrow>
                         if uid = [] then Done s1
                         else
                          (case db_execute fault
                                  (Inr (UPDATE_SQL (todos s1) (h_alg (header env)) (Some aad_const)
                                          (nB64 env) (cB64 env) (saltB64 (kdf (header env)))
                                          now ident uid)) of
                             Inl e \<Rightarrow> Done s1
                           | Inr tbl \<Rightarrow>
                               Done (s1\<lparr> todos := tbl,
                                         items := map (\<lambda>x. if t_id x = ident
                                                             then x\<lparr> t_synced := Some True \<rparr> else x)
                                                    (items s1) \<rparr>))))))"

section \<open>A reference instance of the libraries\<close>

text \<open>
  A small instance of the libraries that meets the assumptions above, used to run the
  model on concrete inputs. Its sealed message is the additional data in a prefix-free
  code, then the key, the nonce and the message.
\<close>

fun ad_tag_list :: "bytes \<Rightarrow> bytes" where
  "ad_tag_list [] = [0]"
| "ad_tag_list (b # bs) = 1 # b # ad_tag_list bs"

definition ad_tag :: "bytes option \<Rightarrow> bytes" where
  "ad_tag ad = ad_tag_list (ad_bytes ad)"

definition ref_seal :: "bytes \<Rightarrow> bytes option \<Rightarrow> bytes \<Rightarrow> bytes \<Rightarrow> error + bytes" where
  "ref_seal m ad n k =
     (if length k = 32 \<and> length n = 24 then Inr (ad_tag ad @ k @ n @ m)
      else Inl (Error ''invalid key or nonce length''))"

definition ref_open :: "bytes \<Rightarrow> bytes option \<Rightarrow> bytes \<Rightarrow> bytes \<Rightarrow> error + bytes" where
  "ref_open c ad n k =
     (if length k = 32 \<and> length n = 24
         \<and> take (length (ad_tag ad @ k @ n)) c = ad_tag ad @ k @ n
      then Inr (drop (length (ad_tag ad @ k @ n)) c)
      else Inl (Error ''ciphertext cannot be decrypted using that key''))"

definition ref_bytesToBase64 :: "bytes \<Rightarrow> string" where
  "ref_bytesToBase64 bs = map (\<lambda>b. char_of (unat b)) bs"

definition ref_base64ToBytes :: "string \<Rightarrow> error + bytes" where
  "ref_base64ToBytes s = Inr (map of_char s)"

definition ref_JSON_stringify :: "json \<Rightarrow> jsstring" where
  "ref_JSON_stringify j =
     (case j of
        JObject [(k1, JString txt), (k2, JBool b)] \<Rightarrow> (if b then 0x54 else 0x46) # txt
      | _ \<Rightarrow> js ''null'')"

definition ref_JSON_parse :: "jsstring \<Rightarrow> error + json" where
  "ref_JSON_parse s =
     (case s of
        [] \<Rightarrow> Inl (Error ''SyntaxError'')
      | c # txt \<Rightarrow>
          if c = 0x54 then Inr (JObject [(''text'', JString txt), (''completed'', JBool True)])
          else if c = 0x46 then Inr (JObject [(''text'', JString txt), (''completed'', JBool False)])
          else Inl (Error ''SyntaxError''))"

definition ref_trim :: "jsstring \<Rightarrow> jsstring" where
  "ref_trim s = rev (dropWhile (\<lambda>c. c = 0x20) (rev (dropWhile (\<lambda>c. c = 0x20) s)))"

definition ref_TextDecoder_decode :: "bytes \<Rightarrow> jsstring" where
  "ref_TextDecoder_decode bs = map ucast bs"

definition ref_libs :: libs where
  "ref_libs =
     \<lparr> crypto_aead_xchacha20poly1305_ietf_encrypt = ref_seal,
       crypto_aead_xchacha20poly1305_ietf_decrypt = ref_open,
       bytesToBase64 = ref_bytesToBase64,
       base64ToBytes = ref_base64ToBytes,
       JSON_stringify = ref_JSON_stringify,
       JSON_parse = ref_JSON_parse,
       trim = ref_trim,
       TextDecoder_decode = ref_TextDecoder_decode \<rparr>"

section \<open>Sample values\<close>

text \<open>Concrete inputs for the closed theorems.\<close>

definition sample_key :: bytes where
  "sample_key = replicate 32 7"

definition sample_nonce :: bytes where
  "sample_nonce = replicate 24 9"

definition sample_dc :: DataCrypto where
  "sample_dc = \<lparr> key = sample_key \<rparr>"

definition sample_plain :: bytes where
  "sample_plain = [0x46, 0x68, 0x69]"

definition sample_sealed :: CipherEnvelope where
  "sample_sealed =
     \<lparr> header = \<lparr> v = 1, h_alg = ALG, h_aad = Some (js ''todo-v1''), kdf = \<lparr> saltB64 = [] \<rparr> \<rparr>,
       nB64 = ref_bytesToBase64 sample_nonce,
       cB64 = ref_bytesToBase64
                (ad_tag (Some (TextEncoder_encode (js ''todo-v1''))) @ sample_key @ sample_nonce
                   @ sample_plain) \<rparr>"




definition sealed_row :: "string \<Rightarrow> todo_row" where
  "sealed_row ident =
     \<lparr> r_id = ident, r_user_id = ''u'', r_bucket_id = Some ''work'',
       r_alg = ALG, r_aad = Some (js ''todo-v1''),
       r_nonce_b64 = nB64 sample_sealed, r_cipher_b64 = cB64 sample_sealed, r_kdf_salt_b64 = [],
       r_created_at = ''2024-01-01T00:00:00.000Z'', r_updated_at = ''2024-01-01T00:00:00.000Z'' \<rparr>"

definition locked_provider :: CryptoProvider where
  "locked_provider = \<lparr> provider_decrypt = (\<lambda>env a. Inl (Error ''wrong secret'')) \<rparr>"



definition sample_state :: TodoList_state where
  "sample_state =
     \<lparr> items = [], input_text = [0x61], bucketId = [], userId = Some ''u'',
       dataCrypto = Some sample_dc, todos = [] \<rparr>"

definition sample_now :: string where
  "sample_now = ''2024-01-01T00:00:00.000Z''"

definition sample_later :: string where
  "sample_later = ''2024-01-01T00:00:00.001Z''"

definition after_add :: "string \<Rightarrow> outcome" where
  "after_add now = addTodo ref_libs sample_nonce ''0a'' now None sample_state"

definition after_toggle :: "string \<Rightarrow> string \<Rightarrow> outcome" where
  "after_toggle now1 now2 =
     toggleCompleted ref_libs sample_nonce now2 None ''0a'' (state_of (after_add now1))"

section \<open>Theorems\<close>

subsection \<open>Encoding and the envelope\<close>



text \<open>On ASCII strings the encoder copies the code units, so it is injective there.\<close>

lemma unat_ascii: "(u :: 16 word) < 0x80 \<Longrightarrow> unat u < 0x80"
  by (simp add: word_less_nat_alt)

lemma not_surrogate_ascii: "u < 0x80 \<Longrightarrow> \<not> is_lead u \<and> \<not> is_trail u"
  by (auto simp: is_lead_def is_trail_def word_less_nat_alt word_le_nat_alt)

lemma utf8_bytes_ascii: "u < 0x80 \<Longrightarrow> utf8_bytes (scalar_value u) = [of_nat (unat u)]"
  by (simp add: scalar_value_def not_surrogate_ascii utf8_bytes_def unat_ascii)

lemma TextEncoder_encode_ascii:
  "ascii s \<Longrightarrow> TextEncoder_encode s = map (\<lambda>u. of_nat (unat u)) s"
  by (induction s rule: TextEncoder_encode.induct)
     (simp_all add: ascii_def utf8_bytes_ascii not_surrogate_ascii)

lemma byte_of_ascii_inj:
  assumes "(u :: 16 word) < 0x80" and "u' < 0x80"
    and "(of_nat (unat u) :: 8 word) = of_nat (unat u')"
  shows "u = u'"
proof -
  from assms(1,2) have "unat u < 0x80" "unat u' < 0x80"
    by (simp_all add: unat_ascii)
  have small: "unat (of_nat n :: 8 word) = n" if "n < 0x80" for n
  proof -
    have "unat (of_nat n :: 8 word) = n mod 2 ^ LENGTH(8)" by (rule unat_of_nat)
    with that show ?thesis by simp
  qed
  from assms(3) have "unat (of_nat (unat u) :: 8 word) = unat (of_nat (unat u') :: 8 word)"
    by (simp only:)
  then have "unat u = unat u'"
    by (simp only: small [OF \<open>unat u < 0x80\<close>] small [OF \<open>unat u' < 0x80\<close>])
  then show ?thesis by (simp add: word_unat_eq_iff)
qed

lemma TextEncoder_encode_ascii_inj:
  assumes "ascii a" and "ascii b" and "TextEncoder_encode a = TextEncoder_encode b"
  shows "a = b"
proof -
  from assms have "map (\<lambda>u. of_nat (unat u) :: 8 word) a = map (\<lambda>u. of_nat (unat u)) b"
    by (simp add: TextEncoder_encode_ascii)
  with assms(1,2) show ?thesis
  proof (induction a arbitrary: b)
    case Nil
    then show ?case by simp
  next
    case (Cons u us)
    then obtain u' us' where b: "b = u' # us'" by (cases b) auto
    with Cons.prems have "u < 0x80" "u' < 0x80" "ascii us" "ascii us'"
      and eq: "(of_nat (unat u) :: 8 word) = of_nat (unat u')"
        "map (\<lambda>u. of_nat (unat u) :: 8 word) us = map (\<lambda>u. of_nat (unat u)) us'"
      by (simp_all add: ascii_def)
    then show ?case
      using Cons.IH [of us'] b byte_of_ascii_inj [of u u'] by simp
  qed
qed

lemma ad_bytes_encode_if_truthy:
  "ad_bytes (encode_if_truthy (Some a)) = TextEncoder_encode a"
  by (simp add: ad_bytes_def encode_if_truthy_def)

lemma encrypt_Inr_fields:
  assumes "encrypt L dc nonce p a = Inr e"
  shows "\<exists>ct. crypto_aead_xchacha20poly1305_ietf_encrypt L p (encode_if_truthy a) nonce (key dc) = Inr ct
           \<and> nB64 e = bytesToBase64 L nonce \<and> cB64 e = bytesToBase64 L ct
           \<and> header e = \<lparr> v = 1, h_alg = ALG, h_aad = a, kdf = \<lparr> saltB64 = [] \<rparr> \<rparr>"
  using assms by (auto simp: encrypt_def split: sum.splits)

lemma decrypt_of_encrypt:
  assumes b64: "base64_roundtrip L"
    and enc: "encrypt L dc nonce p a = Inr e"
  shows "\<exists>ct. crypto_aead_xchacha20poly1305_ietf_encrypt L p (encode_if_truthy a) nonce (key dc) = Inr ct
           \<and> decrypt L dc e a' =
               crypto_aead_xchacha20poly1305_ietf_decrypt L ct (encode_if_truthy (nullish a' a)) nonce (key dc)"
proof -
  from encrypt_Inr_fields [OF enc] obtain ct where
    ct: "crypto_aead_xchacha20poly1305_ietf_encrypt L p (encode_if_truthy a) nonce (key dc) = Inr ct"
    and n: "nB64 e = bytesToBase64 L nonce" and c: "cB64 e = bytesToBase64 L ct"
    and h: "header e = \<lparr> v = 1, h_alg = ALG, h_aad = a, kdf = \<lparr> saltB64 = [] \<rparr> \<rparr>"
    by blast
  from b64 have rt: "\<And>bs. base64ToBytes L (bytesToBase64 L bs) = Inr bs"
    by (simp add: base64_roundtrip_def)
  have "decrypt L dc e a' =
      crypto_aead_xchacha20poly1305_ietf_decrypt L ct (encode_if_truthy (nullish a' a)) nonce (key dc)"
    by (simp add: decrypt_def n c h rt)
  with ct show ?thesis by blast
qed

lemma decrypt_encrypt_effective:
  assumes "aead_correct L" and "base64_roundtrip L"
    and "encrypt L dc nonce p a = Inr e"
    and "encode_if_truthy (nullish a' a) = encode_if_truthy a"
  shows "decrypt L dc e a' = Inr p"
proof -
  from decrypt_of_encrypt [OF assms(2,3), of a'] obtain ct where
    ct: "crypto_aead_xchacha20poly1305_ietf_encrypt L p (encode_if_truthy a) nonce (key dc) = Inr ct"
    and d: "decrypt L dc e a' =
      crypto_aead_xchacha20poly1305_ietf_decrypt L ct (encode_if_truthy (nullish a' a)) nonce (key dc)"
    by blast
  from assms(1) ct have "crypto_aead_xchacha20poly1305_ietf_decrypt L ct (encode_if_truthy a) nonce (key dc) = Inr p"
    unfolding aead_correct_def by blast
  with d assms(4) show ?thesis by simp
qed

subsection \<open>The reference libraries meet the assumptions\<close>



lemma ref_open_seal:
  "ref_seal m ad n k = Inr c \<Longrightarrow> ref_open c ad n k = Inr m"
  by (auto simp: ref_seal_def ref_open_def split: if_splits)


lemma ref_libs_aead_correct: "aead_correct ref_libs"
  by (simp add: aead_correct_def ref_libs_def ref_open_seal)


lemma unat_of_char: "unat (of_char c :: 8 word) = of_char c"
proof -
  have "unat (of_nat (of_char c) :: 8 word) = of_char c mod 2 ^ 8"
    by (simp add: unat_of_nat)
  also have "\<dots> = of_char c"
    using nat_of_char_less_256 [of c] by simp
  finally show ?thesis
    by (simp add: of_nat_of_char)
qed

lemma of_char_char_of_unat: "of_char (char_of (unat b)) = (b :: 8 word)"
proof -
  have "unat b < 2 ^ 8"
    using unsigned_less [of b] by simp
  then have "unat (of_char (char_of (unat b)) :: 8 word) = unat b"
    by (simp add: unat_of_char)
  then show ?thesis
    by (simp add: word_unat_eq_iff)
qed

lemma ref_libs_base64_roundtrip: "base64_roundtrip ref_libs"
  by (simp add: base64_roundtrip_def ref_libs_def ref_base64ToBytes_def ref_bytesToBase64_def
      comp_def of_char_char_of_unat)

lemma sample_encrypt:
  "encrypt ref_libs sample_dc sample_nonce sample_plain (Some (js ''todo-v1'')) = Inr sample_sealed"
  by (simp add: encrypt_def ref_libs_def ref_seal_def sample_dc_def sample_key_def
      sample_nonce_def sample_sealed_def encode_if_truthy_def js_def)

lemma sample_decrypt:
  "decrypt ref_libs sample_dc sample_sealed (Some (js ''todo-v1'')) = Inr sample_plain"
  using ref_libs_aead_correct ref_libs_base64_roundtrip sample_encrypt
  by (rule decrypt_encrypt_effective) (simp add: nullish_def)

subsection \<open>Encrypting and decrypting\<close>

text \<open>
  Claim C1. For every plaintext \<open>p\<close> and every AAD string \<open>a\<close>, decrypting with the same
  key and the same AAD the envelope that encryption produced returns \<open>p\<close>. The libraries
  are assumed correct (\<open>aead_correct\<close>, \<open>base64_roundtrip\<close>), and encryption is assumed to
  have produced an envelope (it throws on a key or nonce of the wrong length).
\<close>

theorem decrypt_encrypt_same_aad:
  assumes "aead_correct L" and "base64_roundtrip L"
    and "encrypt L dc nonce p (Some a) = Inr e"
  shows "decrypt L dc e (Some a) = Inr p"
  using assms by (rule decrypt_encrypt_effective) (simp add: nullish_def)

theorem decrypt_encrypt_same_aad_witness:
  "aead_correct ref_libs \<and> base64_roundtrip ref_libs
   \<and> encrypt ref_libs sample_dc sample_nonce sample_plain (Some (js ''todo-v1'')) = Inr sample_sealed
   \<and> decrypt ref_libs sample_dc sample_sealed (Some (js ''todo-v1'')) = Inr sample_plain"
  using decrypt_encrypt_same_aad [OF ref_libs_aead_correct ref_libs_base64_roundtrip sample_encrypt]
    ref_libs_aead_correct ref_libs_base64_roundtrip sample_encrypt by simp


lemma decrypt_other_encoding_fails:
  assumes "aead_binds_ad L" and "base64_roundtrip L"
    and "TextEncoder_encode a' \<noteq> TextEncoder_encode a"
    and "encrypt L dc nonce p (Some a) = Inr e"
  shows "\<exists>err. decrypt L dc e (Some a') = Inl err"
proof -
  from decrypt_of_encrypt [OF assms(2,4), of "Some a'"] obtain ct where
    ct: "crypto_aead_xchacha20poly1305_ietf_encrypt L p (encode_if_truthy (Some a)) nonce (key dc) = Inr ct"
    and d: "decrypt L dc e (Some a') =
      crypto_aead_xchacha20poly1305_ietf_decrypt L ct (encode_if_truthy (nullish (Some a') (Some a))) nonce (key dc)"
    by blast
  from assms(3) have "ad_bytes (encode_if_truthy (Some a')) \<noteq> ad_bytes (encode_if_truthy (Some a))"
    by (simp add: ad_bytes_encode_if_truthy)
  with assms(1) ct have "isl (crypto_aead_xchacha20poly1305_ietf_decrypt L ct (encode_if_truthy (Some a')) nonce (key dc))"
    unfolding aead_binds_ad_def by blast
  with d show ?thesis by (auto simp: nullish_def isl_def)
qed




text \<open>In particular, two different ASCII strings never decrypt each other's envelopes.\<close>

lemma decrypt_other_ascii_aad_fails:
  assumes "aead_binds_ad L" and "base64_roundtrip L"
    and "ascii a" and "ascii a'" and "a' \<noteq> a"
    and "encrypt L dc nonce p (Some a) = Inr e"
  shows "\<exists>err. decrypt L dc e (Some a') = Inl err"
proof -
  from assms(3-5) have "TextEncoder_encode a' \<noteq> TextEncoder_encode a"
    using TextEncoder_encode_ascii_inj by blast
  with assms(1,2) show ?thesis
    using assms(6) by (rule decrypt_other_encoding_fails)
qed

text \<open>
  Claim C9. For every plaintext \<open>p\<close> and every AAD string \<open>a\<close>, decrypting the envelope of
  \<open>encrypt p a\<close> with no AAD argument returns \<open>p\<close>: \<open>decrypt\<close> falls back to the AAD
  stored in the header.
\<close>

theorem decrypt_without_aad_falls_back:
  assumes "aead_correct L" and "base64_roundtrip L"
    and "encrypt L dc nonce p (Some a) = Inr e"
  shows "decrypt L dc e None = Inr p"
  using assms by (rule decrypt_encrypt_effective) (simp add: nullish_def)

theorem decrypt_without_aad_falls_back_witness:
  "aead_correct ref_libs \<and> base64_roundtrip ref_libs
   \<and> encrypt ref_libs sample_dc sample_nonce sample_plain (Some (js ''todo-v1'')) = Inr sample_sealed
   \<and> decrypt ref_libs sample_dc sample_sealed None = Inr sample_plain"
  using decrypt_without_aad_falls_back [OF ref_libs_aead_correct ref_libs_base64_roundtrip sample_encrypt]
    ref_libs_aead_correct ref_libs_base64_roundtrip sample_encrypt by simp

subsection \<open>Envelope and columns\<close>

text \<open>
  Claim C3. For every valid envelope \<open>e\<close>, flattening it into the column representation
  and rebuilding it with \<open>columnsToEnvelope\<close> gives \<open>e\<close> again.
\<close>

theorem columns_roundtrip:
  assumes "valid_envelope e"
  shows "columnsToEnvelope (envelopeToColumns e) = e"
  using assms by (simp add: valid_envelope_def columnsToEnvelope_def envelopeToColumns_def)

theorem columns_roundtrip_witness:
  "valid_envelope sample_sealed \<and> columnsToEnvelope (envelopeToColumns sample_sealed) = sample_sealed"
proof -
  have ok: "valid_envelope sample_sealed"
    by (simp add: valid_envelope_def sample_sealed_def)
  from columns_roundtrip [OF ok] ok show ?thesis by simp
qed

subsection \<open>The columns of the todos table\<close>

text \<open>
  Claim C4, as stated: the encrypted table carries exactly the four implicit columns and
  the five envelope columns. The \<^verbatim>\<open>todos\<close> table has a tenth column, \<^verbatim>\<open>created_at\<close>.
\<close>

theorem todos_columns_counterexample:
  "\<not> (set todos_Table_columns = set (implicit_columns @ envelope_columns))"
proof
  assume eq: "set todos_Table_columns = set (implicit_columns @ envelope_columns)"
  have "''created_at'' \<in> set todos_Table_columns"
    by (simp add: todos_Table_columns_def)
  with eq have "''created_at'' \<in> set (implicit_columns @ envelope_columns)"
    by simp
  then show False
    by (simp add: implicit_columns_def envelope_columns_def)
qed

text \<open>
  Claim C4, amended. The \<^verbatim>\<open>todos\<close> table carries exactly the four implicit columns, the
  five envelope columns and \<^verbatim>\<open>created_at\<close>, each once, and \<^verbatim>\<open>CREATE_TABLE_SQL\<close> declares
  the same columns in the same order as the managed table.
\<close>

theorem todos_columns:
  "set todos_Table_columns = set (implicit_columns @ envelope_columns @ [''created_at''])
   \<and> distinct todos_Table_columns
   \<and> map col_name CREATE_TABLE_SQL_columns = todos_Table_columns"
  by (simp add: todos_Table_columns_def implicit_columns_def envelope_columns_def
      CREATE_TABLE_SQL_columns_def insert_commute)

subsection \<open>Insert, then update\<close>

lemma row_envelope_of_encrypt:
  assumes "encrypt L dc nonce p a = Inr e"
    and "r_alg r = h_alg (header e)" and "r_aad r = a"
    and "r_nonce_b64 r = nB64 e" and "r_cipher_b64 r = cB64 e"
    and "r_kdf_salt_b64 r = saltB64 (kdf (header e))"
  shows "row_envelope r = e"
proof -
  from encrypt_Inr_fields [OF assms(1)] have
    h: "header e = \<lparr> v = 1, h_alg = ALG, h_aad = a, kdf = \<lparr> saltB64 = [] \<rparr> \<rparr>"
    by blast
  show ?thesis
    using assms(2-6) by (simp add: row_envelope_def columnsToEnvelope_def h)
qed

lemma find_append_fresh:
  "i \<notin> set (map r_id tbl) \<Longrightarrow> r_id row = i \<Longrightarrow> find (\<lambda>r. r_id r = i) (tbl @ [row]) = Some row"
  by (induction tbl) auto

lemma find_UPDATE_SQL_fresh:
  "i \<notin> set (map r_id tbl) \<Longrightarrow> r_id row = i \<Longrightarrow> r_user_id row = uid \<Longrightarrow>
   find (\<lambda>r. r_id r = i) (UPDATE_SQL (tbl @ [row]) p1 p2 p3 p4 p5 p6 i uid) =
     Some (row\<lparr> r_alg := p1, r_aad := p2, r_nonce_b64 := p3, r_cipher_b64 := p4,
                r_kdf_salt_b64 := p5, r_updated_at := p6 \<rparr>)"
  by (induction tbl) (auto simp: UPDATE_SQL_def)

lemma addTodo_Done:
  assumes "dataCrypto s = Some dc" and "userId s = Some uid" and "uid \<noteq> []"
    and "trim L (input_text s) \<noteq> []"
    and "addTodo L nonce i now fault s = Done s1"
  shows "\<exists>env. encrypt L dc nonce (utf8 (todo_payload L (trim L (input_text s)) False)) (Some aad_const) = Inr env
     \<and> fault = None
     \<and> i \<notin> set (map r_id (todos s))
     \<and> todos s1 = todos s @
          [\<lparr> r_id = i, r_user_id = uid,
             r_bucket_id = (if bucketId s = [] then None else Some (bucketId s)),
             r_alg = h_alg (header env), r_aad = Some aad_const, r_nonce_b64 = nB64 env,
             r_cipher_b64 = cB64 env, r_kdf_salt_b64 = saltB64 (kdf (header env)),
             r_created_at = now, r_updated_at = now \<rparr>]
     \<and> items s1 =
          \<lparr> t_id = i, t_text = trim L (input_text s), t_completed = False, t_env = env,
            t_synced = Some True \<rparr>
          # map (\<lambda>t. if t_id t = i then t\<lparr> t_synced := Some True \<rparr> else t) (items s)
     \<and> dataCrypto s1 = Some dc \<and> userId s1 = Some uid"
  using assms
  by (auto simp: addTodo_def INSERT_SQL_def db_execute_def Let_def
      split: sum.splits if_splits option.splits)

text \<open>
  With no user, or the empty user id, \<open>addTodo\<close> writes no row; a failed update leaves
  the table of \<open>toggleCompleted\<close> as it was, whatever else the call does.
\<close>

lemma addTodo_falsy_user_keeps_table:
  assumes "userId s = None \<or> userId s = Some []"
  shows "todos (state_of (addTodo L nonce i now fault s)) = todos s"
  using assms
  by (auto simp: addTodo_def Let_def split: sum.splits option.splits)

lemma toggleCompleted_fault_keeps_table:
  "todos (state_of (toggleCompleted L nonce now (Some e) i s)) = todos s"
  by (auto simp: toggleCompleted_def db_execute_def Let_def split: sum.splits option.splits)

lemma toggleCompleted_writes:
  assumes "items s = t # rest" and "t_id t = i"
    and "dataCrypto s = Some dc" and "userId s = Some uid" and "uid \<noteq> []"
    and "encrypt L dc nonce (utf8 (todo_payload L (t_text t) (\<not> t_completed t))) (Some aad_const) = Inr env"
  shows "\<exists>s2. toggleCompleted L nonce now None i s = Done s2
     \<and> todos s2 = UPDATE_SQL (todos s) (h_alg (header env)) (Some aad_const) (nB64 env) (cB64 env)
                     (saltB64 (kdf (header env))) now i uid"
  using assms
  by (simp add: toggleCompleted_def db_execute_def Let_def)

lemma insert_then_update_rows:
  assumes lib: "aead_correct L" "base64_roundtrip L"
    and dc: "dataCrypto s = Some dc" and uid: "userId s = Some uid" "uid \<noteq> []"
    and nonempty: "trim L (input_text s) \<noteq> []"
    and add: "addTodo L n1 i now1 None s = Done s1"
    and enc: "encrypt L dc n2 (utf8 (todo_payload L b c)) (Some aad_const) = Inr env2"
    and upd: "tbl2 = UPDATE_SQL (todos s1) (h_alg (header env2)) (Some aad_const) (nB64 env2)
                       (cB64 env2) (saltB64 (kdf (header env2))) now2 i uid"
  shows "\<exists>r1 r2.
           find (\<lambda>r. r_id r = i) (todos s1) = Some r1
         \<and> find (\<lambda>r. r_id r = i) tbl2 = Some r2
         \<and> decrypt L dc (row_envelope r1) (r_aad r1) =
             Inr (utf8 (todo_payload L (trim L (input_text s)) False))
         \<and> decrypt L dc (row_envelope r2) (r_aad r2) = Inr (utf8 (todo_payload L b c))
         \<and> r_nonce_b64 r2 = bytesToBase64 L n2
         \<and> r_created_at r1 = now1 \<and> r_updated_at r1 = now1
         \<and> r_created_at r2 = now1 \<and> r_updated_at r2 = now2"
proof -
  let ?txt = "trim L (input_text s)"
  from addTodo_Done [OF dc uid nonempty add] obtain env1 where
    e1: "encrypt L dc n1 (utf8 (todo_payload L ?txt False)) (Some aad_const) = Inr env1"
    and fresh: "i \<notin> set (map r_id (todos s))"
    and t1: "todos s1 = todos s @
          [\<lparr> r_id = i, r_user_id = uid,
             r_bucket_id = (if bucketId s = [] then None else Some (bucketId s)),
             r_alg = h_alg (header env1), r_aad = Some aad_const, r_nonce_b64 = nB64 env1,
             r_cipher_b64 = cB64 env1, r_kdf_salt_b64 = saltB64 (kdf (header env1)),
             r_created_at = now1, r_updated_at = now1 \<rparr>]"
    by blast
  let ?r1 = "\<lparr> r_id = i, r_user_id = uid,
             r_bucket_id = (if bucketId s = [] then None else Some (bucketId s)),
             r_alg = h_alg (header env1), r_aad = Some aad_const, r_nonce_b64 = nB64 env1,
             r_cipher_b64 = cB64 env1, r_kdf_salt_b64 = saltB64 (kdf (header env1)),
             r_created_at = now1, r_updated_at = now1 \<rparr>"
  let ?r2 = "?r1\<lparr> r_alg := h_alg (header env2), r_aad := Some aad_const,
                    r_nonce_b64 := nB64 env2, r_cipher_b64 := cB64 env2,
                    r_kdf_salt_b64 := saltB64 (kdf (header env2)), r_updated_at := now2 \<rparr>"
  have f1: "find (\<lambda>r. r_id r = i) (todos s1) = Some ?r1"
    unfolding t1 using fresh by (rule find_append_fresh) simp
  have f2: "find (\<lambda>r. r_id r = i) tbl2 = Some ?r2"
    unfolding upd t1 using fresh by (rule find_UPDATE_SQL_fresh) simp_all
  have env1: "row_envelope ?r1 = env1"
    using e1 by (rule row_envelope_of_encrypt) simp_all
  have env2: "row_envelope ?r2 = env2"
    using enc by (rule row_envelope_of_encrypt) simp_all
  have d1: "decrypt L dc (row_envelope ?r1) (r_aad ?r1) = Inr (utf8 (todo_payload L ?txt False))"
    unfolding env1 using lib e1 by (rule decrypt_encrypt_effective) (simp add: nullish_def)
  have d2: "decrypt L dc (row_envelope ?r2) (r_aad ?r2) = Inr (utf8 (todo_payload L b c))"
    unfolding env2 using lib enc by (rule decrypt_encrypt_effective) (simp add: nullish_def)
  have n2: "r_nonce_b64 ?r2 = bytesToBase64 L n2"
    using encrypt_Inr_fields [OF enc] by auto
  have rest: "r_created_at ?r1 = now1 \<and> r_updated_at ?r1 = now1
         \<and> r_created_at ?r2 = now1 \<and> r_updated_at ?r2 = now2"
    by simp
  from f1 f2 d1 d2 n2 rest show ?thesis by blast
qed

lemma toggle_after_add:
  assumes dc: "dataCrypto s = Some dc" and uid: "userId s = Some uid" "uid \<noteq> []"
    and nonempty: "trim L (input_text s) \<noteq> []"
    and add: "addTodo L n1 i now1 None s = Done s1"
    and enc: "encrypt L dc n2 (utf8 (todo_payload L (trim L (input_text s)) True)) (Some aad_const) = Inr env2"
  shows "\<exists>s2. toggleCompleted L n2 now2 None i s1 = Done s2
     \<and> todos s2 = UPDATE_SQL (todos s1) (h_alg (header env2)) (Some aad_const) (nB64 env2)
                     (cB64 env2) (saltB64 (kdf (header env2))) now2 i uid"
proof -
  from addTodo_Done [OF dc uid nonempty add] obtain env1 where
    i1: "items s1 =
          \<lparr> t_id = i, t_text = trim L (input_text s), t_completed = False, t_env = env1,
            t_synced = Some True \<rparr>
          # map (\<lambda>t. if t_id t = i then t\<lparr> t_synced := Some True \<rparr> else t) (items s)"
    and dc1: "dataCrypto s1 = Some dc" and uid1: "userId s1 = Some uid"
    by blast
  show ?thesis
    by (rule toggleCompleted_writes [OF i1 _ dc1 uid1 uid(2)]) (simp_all add: enc)
qed

lemma sample_clock: "sample_now < sample_later"
  by (simp add: sample_now_def sample_later_def less_char_def)

lemma ref_trim_a: "ref_trim [0x61] = [0x61]"
  by (simp add: ref_trim_def)

lemma sample_state_ready:
  "dataCrypto sample_state = Some sample_dc \<and> userId sample_state = Some ''u'' \<and> ''u'' \<noteq> []
   \<and> trim ref_libs (input_text sample_state) \<noteq> []"
  by (simp add: sample_state_def ref_libs_def ref_trim_a)

lemma after_add_Done: "after_add now = Done (state_of (after_add now))"
  by (simp add: after_add_def addTodo_def ref_trim_a encrypt_def ref_libs_def ref_seal_def
      sample_state_def sample_dc_def sample_key_def sample_nonce_def INSERT_SQL_def
      db_execute_def Let_def)

lemma sample_add:
  "addTodo ref_libs sample_nonce ''0a'' now None sample_state = Done (state_of (after_add now))"
  using after_add_Done [of now] by (simp add: after_add_def)

lemma sample_reencrypt:
  "\<exists>env. encrypt ref_libs sample_dc sample_nonce
            (utf8 (todo_payload ref_libs (trim ref_libs (input_text sample_state)) True))
            (Some aad_const) = Inr env"
  by (simp add: encrypt_def ref_libs_def ref_seal_def sample_dc_def sample_key_def
      sample_nonce_def)

lemma sample_toggle:
  "toggleCompleted ref_libs sample_nonce now2 None ''0a'' (state_of (after_add now1))
     = Done (state_of (after_toggle now1 now2))"
proof -
  from sample_state_ready have c: "dataCrypto sample_state = Some sample_dc"
    and d: "userId sample_state = Some ''u''" and d': "''u'' \<noteq> []"
    and e: "trim ref_libs (input_text sample_state) \<noteq> []"
    by simp_all
  from sample_reencrypt obtain env where
    enc: "encrypt ref_libs sample_dc sample_nonce
            (utf8 (todo_payload ref_libs (trim ref_libs (input_text sample_state)) True))
            (Some aad_const) = Inr env"
    by blast
  from toggle_after_add [OF c d d' e sample_add [of now1] enc, where ?now2.0 = now2] obtain s2 where
    "toggleCompleted ref_libs sample_nonce now2 None ''0a'' (state_of (after_add now1)) = Done s2"
    by blast
  then show ?thesis by (simp add: after_toggle_def)
qed

text \<open>
  Claim C5, as stated: after an insert and an update of the same id, the row's
  \<^verbatim>\<open>updated_at\<close> is strictly later than the one the insert wrote. Both calls store the
  clock reading they took; when the clock gives the update the reading it gave the insert,
  the two values are equal.
\<close>

theorem update_same_clock_counterexample:
  "addTodo ref_libs sample_nonce ''0a'' sample_now None sample_state
     = Done (state_of (after_add sample_now))
   \<and> toggleCompleted ref_libs sample_nonce sample_now None ''0a'' (state_of (after_add sample_now))
       = Done (state_of (after_toggle sample_now sample_now))
   \<and> (\<exists>r1 r2.
           find (\<lambda>r. r_id r = ''0a'') (todos (state_of (after_add sample_now))) = Some r1
         \<and> find (\<lambda>r. r_id r = ''0a'') (todos (state_of (after_toggle sample_now sample_now))) = Some r2
         \<and> \<not> r_updated_at r1 < r_updated_at r2)"
proof -
  from sample_state_ready have c: "dataCrypto sample_state = Some sample_dc"
    and d: "userId sample_state = Some ''u''" and d': "''u'' \<noteq> []"
    and e: "trim ref_libs (input_text sample_state) \<noteq> []"
    by simp_all
  from sample_reencrypt obtain env where
    enc: "encrypt ref_libs sample_dc sample_nonce
            (utf8 (todo_payload ref_libs (trim ref_libs (input_text sample_state)) True))
            (Some aad_const) = Inr env"
    by blast
  from toggle_after_add [OF c d d' e sample_add [of sample_now] enc, where ?now2.0 = sample_now]
    sample_toggle [of sample_now sample_now]
  have tbl: "todos (state_of (after_toggle sample_now sample_now)) =
      UPDATE_SQL (todos (state_of (after_add sample_now))) (h_alg (header env)) (Some aad_const)
        (nB64 env) (cB64 env) (saltB64 (kdf (header env))) sample_now ''0a'' ''u''"
    by auto
  from insert_then_update_rows
    [OF ref_libs_aead_correct ref_libs_base64_roundtrip c d d' e sample_add [of sample_now] enc tbl]
  obtain r1 r2 where
    rows: "find (\<lambda>r. r_id r = ''0a'') (todos (state_of (after_add sample_now))) = Some r1"
      "find (\<lambda>r. r_id r = ''0a'') (todos (state_of (after_toggle sample_now sample_now))) = Some r2"
      "r_updated_at r1 = sample_now" "r_updated_at r2 = sample_now"
    by blast
  from rows(3,4) have "\<not> r_updated_at r1 < r_updated_at r2" by simp
  with rows(1,2) sample_add [of sample_now] sample_toggle [of sample_now sample_now]
  show ?thesis by blast
qed

text \<open>
  Claim C5, amended. For every row id, after \<open>addTodo\<close> has inserted the content with
  text \<open>a\<close> (a non-blank text, a DEK and a non-empty user id present, the insert not
  failing), an update of that id to the content with text \<open>b\<close> and flag \<open>c\<close>, made the way
  the component updates a row, which is the whole content \<^verbatim>\<open>{ text, completed }\<close> encrypted
  as one payload under a fresh nonce and written by \<^verbatim>\<open>UPDATE_SQL\<close> with the clock reading
  of the update, leaves a row whose envelope decrypts to the content with text \<open>b\<close> and
  flag \<open>c\<close>, where before the update it decrypted to the inserted content. \<^verbatim>\<open>created_at\<close>
  stays the clock reading of the insert and \<^verbatim>\<open>updated_at\<close> becomes that of the update: it
  is strictly later than the value the insert wrote exactly when the update read a
  strictly later clock (timestamps compare as the stored text does).
  \<open>toggleCompleted\<close> is this update with \<open>b\<close> the text of the item and \<open>c\<close> its flipped
  flag, when its storage call does not fail; it is the only update the component has.
\<close>

theorem insert_then_update:
  assumes "aead_correct L" and "base64_roundtrip L"
    and "dataCrypto s = Some dc" and "userId s = Some uid" and "uid \<noteq> []"
    and "trim L (input_text s) \<noteq> []"
    and "addTodo L n1 i now1 None s = Done s1"
    and "encrypt L dc n2 (utf8 (todo_payload L b c)) (Some aad_const) = Inr env2"
    and "tbl2 = UPDATE_SQL (todos s1) (h_alg (header env2)) (Some aad_const) (nB64 env2)
                  (cB64 env2) (saltB64 (kdf (header env2))) now2 i uid"
  shows "\<exists>r1 r2.
           find (\<lambda>r. r_id r = i) (todos s1) = Some r1
         \<and> find (\<lambda>r. r_id r = i) tbl2 = Some r2
         \<and> decrypt L dc (row_envelope r1) (r_aad r1) =
             Inr (utf8 (todo_payload L (trim L (input_text s)) False))
         \<and> decrypt L dc (row_envelope r2) (r_aad r2) = Inr (utf8 (todo_payload L b c))
         \<and> r_nonce_b64 r2 = bytesToBase64 L n2
         \<and> r_created_at r1 = now1 \<and> r_updated_at r1 = now1
         \<and> r_created_at r2 = now1 \<and> r_updated_at r2 = now2
         \<and> (r_updated_at r1 < r_updated_at r2 \<longleftrightarrow> now1 < now2)
         \<and> (b = trim L (input_text s) \<and> c \<longrightarrow>
              (\<exists>s2. toggleCompleted L n2 now2 None i s1 = Done s2 \<and> todos s2 = tbl2))"
proof -
  from insert_then_update_rows [OF assms] obtain r1 r2 where
    rows: "find (\<lambda>r. r_id r = i) (todos s1) = Some r1"
      "find (\<lambda>r. r_id r = i) tbl2 = Some r2"
      "decrypt L dc (row_envelope r1) (r_aad r1) =
         Inr (utf8 (todo_payload L (trim L (input_text s)) False))"
      "decrypt L dc (row_envelope r2) (r_aad r2) = Inr (utf8 (todo_payload L b c))"
      "r_nonce_b64 r2 = bytesToBase64 L n2"
      "r_created_at r1 = now1" "r_updated_at r1 = now1"
      "r_created_at r2 = now1" "r_updated_at r2 = now2"
    by blast
  from rows(7,9) have later: "r_updated_at r1 < r_updated_at r2 \<longleftrightarrow> now1 < now2"
    by simp
  have toggle: "\<exists>s2. toggleCompleted L n2 now2 None i s1 = Done s2 \<and> todos s2 = tbl2"
    if "b = trim L (input_text s) \<and> c"
  proof -
    from that assms(8) have
      "encrypt L dc n2 (utf8 (todo_payload L (trim L (input_text s)) True)) (Some aad_const) = Inr env2"
      by simp
    from toggle_after_add [OF assms(3-7) this, of now2] assms(9) show ?thesis
      by simp
  qed
  from rows later toggle show ?thesis by blast
qed

theorem insert_then_update_witness:
  "aead_correct ref_libs \<and> base64_roundtrip ref_libs
   \<and> dataCrypto sample_state = Some sample_dc \<and> userId sample_state = Some ''u'' \<and> ''u'' \<noteq> []
   \<and> trim ref_libs (input_text sample_state) \<noteq> []
   \<and> addTodo ref_libs sample_nonce ''0a'' sample_now None sample_state
       = Done (state_of (after_add sample_now))
   \<and> sample_now < sample_later
   \<and> (\<exists>env2 r1 r2.
           encrypt ref_libs sample_dc sample_nonce
             (utf8 (todo_payload ref_libs (trim ref_libs (input_text sample_state)) True))
             (Some aad_const) = Inr env2
         \<and> find (\<lambda>r. r_id r = ''0a'') (todos (state_of (after_add sample_now))) = Some r1
         \<and> find (\<lambda>r. r_id r = ''0a'')
              (UPDATE_SQL (todos (state_of (after_add sample_now))) (h_alg (header env2))
                 (Some aad_const) (nB64 env2) (cB64 env2) (saltB64 (kdf (header env2)))
                 sample_later ''0a'' ''u'') = Some r2
         \<and> decrypt ref_libs sample_dc (row_envelope r1) (r_aad r1) =
             Inr (utf8 (todo_payload ref_libs (trim ref_libs (input_text sample_state)) False))
         \<and> decrypt ref_libs sample_dc (row_envelope r2) (r_aad r2) =
             Inr (utf8 (todo_payload ref_libs (trim ref_libs (input_text sample_state)) True))
         \<and> r_updated_at r1 = sample_now \<and> r_updated_at r2 = sample_later
         \<and> r_updated_at r1 < r_updated_at r2
         \<and> (\<exists>s2. toggleCompleted ref_libs sample_nonce sample_later None ''0a''
                    (state_of (after_add sample_now)) = Done s2
                \<and> todos s2 =
                    UPDATE_SQL (todos (state_of (after_add sample_now))) (h_alg (header env2))
                      (Some aad_const) (nB64 env2) (cB64 env2) (saltB64 (kdf (header env2)))
                      sample_later ''0a'' ''u''))"
proof -
  from sample_state_ready have c: "dataCrypto sample_state = Some sample_dc"
    and d: "userId sample_state = Some ''u''" and d': "''u'' \<noteq> []"
    and e: "trim ref_libs (input_text sample_state) \<noteq> []"
    by simp_all
  from sample_reencrypt obtain env2 where
    enc: "encrypt ref_libs sample_dc sample_nonce
            (utf8 (todo_payload ref_libs (trim ref_libs (input_text sample_state)) True))
            (Some aad_const) = Inr env2"
    by blast
  from insert_then_update
    [OF ref_libs_aead_correct ref_libs_base64_roundtrip c d d' e sample_add [of sample_now] enc refl,
      where ?now2.0 = sample_later]
  obtain r1 r2 where
    rows: "find (\<lambda>r. r_id r = ''0a'') (todos (state_of (after_add sample_now))) = Some r1"
      "find (\<lambda>r. r_id r = ''0a'')
              (UPDATE_SQL (todos (state_of (after_add sample_now))) (h_alg (header env2))
                 (Some aad_const) (nB64 env2) (cB64 env2) (saltB64 (kdf (header env2)))
                 sample_later ''0a'' ''u'') = Some r2"
      "decrypt ref_libs sample_dc (row_envelope r1) (r_aad r1) =
             Inr (utf8 (todo_payload ref_libs (trim ref_libs (input_text sample_state)) False))"
      "decrypt ref_libs sample_dc (row_envelope r2) (r_aad r2) =
             Inr (utf8 (todo_payload ref_libs (trim ref_libs (input_text sample_state)) True))"
      "r_updated_at r1 = sample_now" "r_updated_at r2 = sample_later"
      "\<exists>s2. toggleCompleted ref_libs sample_nonce sample_later None ''0a''
                    (state_of (after_add sample_now)) = Done s2
                \<and> todos s2 =
                    UPDATE_SQL (todos (state_of (after_add sample_now))) (h_alg (header env2))
                      (Some aad_const) (nB64 env2) (cB64 env2) (saltB64 (kdf (header env2)))
                      sample_later ''0a'' ''u''"
    by auto
  from rows(5,6) sample_clock have "r_updated_at r1 < r_updated_at r2" by simp
  with rows enc ref_libs_aead_correct ref_libs_base64_roundtrip c d d' e
    sample_add [of sample_now] sample_clock
  show ?thesis by blast
qed

subsection \<open>The decrypt effect\<close>

lemma rows_loop_eq:
  "rows_loop L crypto dc rs (acc, ok, fail) =
     (acc @ concat (map (row_items L crypto dc) rs),
      ok + length (concat (map (row_items L crypto dc) rs)),
      fail + length (filter (\<lambda>r. isl (row_try L crypto dc r)) rs))"
proof (induction rs arbitrary: acc ok fail)
  case Nil
  then show ?case by simp
next
  case (Cons r rs)
  show ?case
  proof (cases "row_try L crypto dc r")
    case (Inl e)
    then show ?thesis by (simp add: Cons.IH row_items_def)
  next
    case (Inr res)
    then show ?thesis by (cases res) (simp_all add: Cons.IH row_items_def)
  qed
qed

lemma decrypt_effect_rows:
  "rs \<noteq> [] \<or> \<not> isFetching \<Longrightarrow>
   decrypt_effect L crypto dc isFetching (Some rs) prev =
     merge_items (concat (map (row_items L crypto dc) rs)) prev"
  by (auto simp: decrypt_effect_def rows_loop_eq)




lemma row_envelope_sealed_row: "row_envelope (sealed_row i) = sample_sealed"
  by (simp add: row_envelope_def sealed_row_def columnsToEnvelope_def sample_sealed_def)

lemma includes_raw_ALG: "includes_str ALG ''/raw''"
  by (simp add: ALG_def)

lemma row_try_sealed_row:
  "row_try ref_libs locked_provider (Some sample_dc) (sealed_row i) =
     Inr (Some \<lparr> t_id = i, t_text = [0x68, 0x69], t_completed = False, t_env = sample_sealed,
                 t_synced = Some True \<rparr>)"
proof -
  have alg: "h_alg (header sample_sealed) = ALG" by (simp add: sample_sealed_def)
  have aad: "r_aad (sealed_row i) = Some (js ''todo-v1'')" by (simp add: sealed_row_def)
  have dec: "TextDecoder_decode ref_libs sample_plain = [0x46, 0x68, 0x69]"
    by (simp add: ref_libs_def ref_TextDecoder_decode_def sample_plain_def)
  have parse: "parse_decoded ref_libs [0x46, 0x68, 0x69] = ([0x68, 0x69], False)"
    by (simp add: parse_decoded_def ref_libs_def ref_JSON_parse_def)
  have rid: "r_id (sealed_row i) = i" by (simp add: sealed_row_def)
  show ?thesis
    by (simp add: row_try_def Let_def row_envelope_sealed_row alg includes_raw_ALG aad
        sample_decrypt project_def dec parse rid)
qed

lemma row_try_garbage_row:
  "row_try ref_libs locked_provider (Some sample_dc) row_without_bucket =
     Inl (Error ''ciphertext cannot be decrypted using that key'')"
  by (simp add: row_try_def row_envelope_def columnsToEnvelope_def row_without_bucket_def
      decrypt_def ref_libs_def ref_base64ToBytes_def ref_open_def)

text \<open>
  Claim C6. A decryption failure on one row of the batch does not leave the loop: when
  the row \<open>r\<close> at any position throws, the loop goes on with the rows after it, from the
  lists and counters the rows before it left and with \<^verbatim>\<open>fail\<close> increased by one, and every
  row of the batch that decrypts is among the items the effect sets. The effect is a
  total function of its inputs: it has no result that stands for an escaped exception.
\<close>

theorem failing_row_is_isolated:
  assumes "row_try L crypto dc r = Inl e"
  shows "rows_loop L crypto dc (pre @ r # post) ([], 0, 0) =
           rows_loop L crypto dc post
             (fst (rows_loop L crypto dc pre ([], 0, 0)),
              fst (snd (rows_loop L crypto dc pre ([], 0, 0))),
              snd (snd (rows_loop L crypto dc pre ([], 0, 0))) + 1)
         \<and> (\<forall>r' \<in> set (pre @ r # post). \<forall>t. row_try L crypto dc r' = Inr (Some t) \<longrightarrow>
               t \<in> set (decrypt_effect L crypto dc isFetching (Some (pre @ r # post)) prev))"
proof -
  have a: "row_items L crypto dc r = []"
    using assms by (simp add: row_items_def)
  have b: "isl (row_try L crypto dc r)"
    using assms by simp
  have first: "rows_loop L crypto dc (pre @ r # post) ([], 0, 0) =
           rows_loop L crypto dc post
             (fst (rows_loop L crypto dc pre ([], 0, 0)),
              fst (snd (rows_loop L crypto dc pre ([], 0, 0))),
              snd (snd (rows_loop L crypto dc pre ([], 0, 0))) + 1)"
    by (simp add: rows_loop_eq a b)
  have second: "t \<in> set (decrypt_effect L crypto dc isFetching (Some (pre @ r # post)) prev)"
    if "r' \<in> set (pre @ r # post)" and "row_try L crypto dc r' = Inr (Some t)" for r' t
  proof -
    from that(2) have "t \<in> set (row_items L crypto dc r')"
      by (simp add: row_items_def)
    with that(1) have "t \<in> set (concat (map (row_items L crypto dc) (pre @ r # post)))"
      by (auto simp del: map_append)
    then show ?thesis
      by (simp add: decrypt_effect_rows merge_items_def del: map_append)
  qed
  from first second show ?thesis by blast
qed

theorem failing_row_is_isolated_witness:
  "row_try ref_libs locked_provider (Some sample_dc) row_without_bucket =
     Inl (Error ''ciphertext cannot be decrypted using that key'')
   \<and> rows_loop ref_libs locked_provider (Some sample_dc)
        ([sealed_row ''01''] @ row_without_bucket # [sealed_row ''02'']) ([], 0, 0) =
      rows_loop ref_libs locked_provider (Some sample_dc) [sealed_row ''02'']
        (fst (rows_loop ref_libs locked_provider (Some sample_dc) [sealed_row ''01''] ([], 0, 0)),
         fst (snd (rows_loop ref_libs locked_provider (Some sample_dc) [sealed_row ''01''] ([], 0, 0))),
         snd (snd (rows_loop ref_libs locked_provider (Some sample_dc) [sealed_row ''01''] ([], 0, 0))) + 1)
   \<and> \<lparr> t_id = ''02'', t_text = [0x68, 0x69], t_completed = False, t_env = sample_sealed,
        t_synced = Some True \<rparr>
       \<in> set (decrypt_effect ref_libs locked_provider (Some sample_dc) False
                (Some ([sealed_row ''01''] @ row_without_bucket # [sealed_row ''02''])) [])"
proof -
  note inst = failing_row_is_isolated [OF row_try_garbage_row,
      of "[sealed_row ''01'']" "[sealed_row ''02'']" False "[]"]
  have mem: "sealed_row ''02'' \<in> set ([sealed_row ''01''] @ row_without_bucket # [sealed_row ''02''])"
    by simp
  from inst mem row_try_sealed_row [of "''02''"] have
    "\<lparr> t_id = ''02'', t_text = [0x68, 0x69], t_completed = False, t_env = sample_sealed,
        t_synced = Some True \<rparr>
       \<in> set (decrypt_effect ref_libs locked_provider (Some sample_dc) False
                (Some ([sealed_row ''01''] @ row_without_bucket # [sealed_row ''02''])) [])"
    by blast
  with inst row_try_garbage_row show ?thesis by blast
qed




subsection \<open>The optional-bucket query\<close>

text \<open>
  With the empty string as bucket parameter, the optional-bucket query returns the rows of
  the user whose \<^verbatim>\<open>bucket_id\<close> is not \<^verbatim>\<open>NULL\<close>: on a \<^verbatim>\<open>NULL\<close> bucket the comparison
  \<^verbatim>\<open>bucket_id = bucket_id\<close> is unknown, and \<^verbatim>\<open>WHERE\<close> drops the row.
\<close>

lemma optional_bucket_empty_param:
  "SELECT_BY_USER_OPTIONAL_BUCKET_SQL tbl (Some u) (Some '''') =
   SELECT_BY_USER_SQL (filter (\<lambda>r. r_bucket_id r \<noteq> None) tbl) (Some u)"
proof -
  have "sql_where (\<lambda>r. sql_and (sql_eq (Some (r_user_id r)) (Some u))
                          (sql_eq (COALESCE (NULLIF (Some '''') (Some '''')) (r_bucket_id r)) (r_bucket_id r))) tbl
      = sql_where (\<lambda>r. sql_eq (Some (r_user_id r)) (Some u)) (filter (\<lambda>r. r_bucket_id r \<noteq> None) tbl)"
    unfolding sql_where_def filter_filter
    by (rule filter_cong) (auto simp: sql_and_def sql_eq_def COALESCE_def NULLIF_def split: option.splits)
  then show ?thesis
    by (simp add: SELECT_BY_USER_OPTIONAL_BUCKET_SQL_def SELECT_BY_USER_SQL_def)
qed

text \<open>
  Claim C10. With parameters \<^verbatim>\<open>[u, ""]\<close> the optional-bucket query is claimed to return the
  rows \<^verbatim>\<open>SELECT_BY_USER_SQL\<close> returns with \<^verbatim>\<open>[u]\<close>, also for rows whose \<^verbatim>\<open>bucket_id\<close> is
  \<^verbatim>\<open>NULL\<close>. On a table holding one row of user \<open>u\<close> with a \<^verbatim>\<open>NULL\<close> bucket,
  \<^verbatim>\<open>SELECT_BY_USER_SQL\<close> returns the row and the optional-bucket query returns nothing.
\<close>

theorem optional_bucket_drops_null_bucket:
  "SELECT_BY_USER_SQL [row_without_bucket] (Some ''u'') = [row_without_bucket]
   \<and> SELECT_BY_USER_OPTIONAL_BUCKET_SQL [row_without_bucket] (Some ''u'') (Some '''') = []"
  by (simp add: SELECT_BY_USER_SQL_def SELECT_BY_USER_OPTIONAL_BUCKET_SQL_def sql_where_def
      ORDER_BY_created_at_DESC_def sql_eq_def sql_and_def COALESCE_def NULLIF_def row_without_bucket_def)

text \<open>
  Such a row is what the component writes: \<open>addTodo\<close> with no bucket entered stores
  \<^verbatim>\<open>NULL\<close> in \<^verbatim>\<open>bucket_id\<close>, and the live query of the component, run with the user and the
  empty bucket, does not return the row just added.
\<close>

lemma added_todo_is_not_selected:
  "\<exists>r. todos (state_of (after_add sample_now)) = [r]
       \<and> r_user_id r = ''u'' \<and> r_bucket_id r = None
       \<and> SELECT_BY_USER_SQL (todos (state_of (after_add sample_now))) (Some ''u'') = [r]
       \<and> SELECT_BY_USER_OPTIONAL_BUCKET_SQL (todos (state_of (after_add sample_now)))
            (Some ''u'') (Some '''') = []"
proof -
  from sample_state_ready have c: "dataCrypto sample_state = Some sample_dc"
    and d: "userId sample_state = Some ''u''" and d': "''u'' \<noteq> []"
    and e: "trim ref_libs (input_text sample_state) \<noteq> []"
    by simp_all
  from addTodo_Done [OF c d d' e sample_add [of sample_now]] obtain r where
    r: "todos (state_of (after_add sample_now)) = todos sample_state @ [r]"
      "r_user_id r = ''u''" "r_bucket_id r = (if bucketId sample_state = [] then None else Some (bucketId sample_state))"
    by auto
  from r(1) have t: "todos (state_of (after_add sample_now)) = [r]"
    by (simp add: sample_state_def)
  from r(3) have b: "r_bucket_id r = None"
    by (simp add: sample_state_def)
  have s1: "SELECT_BY_USER_SQL [r] (Some ''u'') = [r]"
    by (simp add: SELECT_BY_USER_SQL_def sql_where_def sql_eq_def ORDER_BY_created_at_DESC_def r(2))
  have s2: "SELECT_BY_USER_OPTIONAL_BUCKET_SQL [r] (Some ''u'') (Some '''') = []"
    by (simp add: SELECT_BY_USER_OPTIONAL_BUCKET_SQL_def sql_where_def sql_and_def sql_eq_def
        COALESCE_def NULLIF_def ORDER_BY_created_at_DESC_def b)
  from t r(2) b s1 s2 show ?thesis by simp
qed

end
